theory Spec2Isabelle
  imports Main
begin

section \<open>Values and exceptions of the host language\<close>

text \<open>
  The analyser is JavaScript. Its results are strings, arrays and plain objects; an
  object is kept as an association list in insertion order (JavaScript lists
  integer-like keys first; nothing below depends on the order of keys). A thrown
  exception is a value carrying the text that \<^verbatim>\<open>error.message\<close> reads, and a call that
  may throw returns \<open>exn + 'a\<close> with \<open>Inl\<close> for the throw.
\<close>

datatype jsval =
    JString string
  | JArray "jsval list"
  | JObject "(string \<times> jsval) list"

datatype exn = Error (message: string)

type_synonym 'a res = "exn + 'a"

text \<open>\<^verbatim>\<open>obj[key] = value\<close>: an existing key keeps its place, a new key goes last.\<close>

fun assign :: "(string \<times> 'v) list \<Rightarrow> string \<Rightarrow> 'v \<Rightarrow> (string \<times> 'v) list" where
  "assign [] key v = [(key, v)]"
| "assign ((k, w) # kvs) key v =
     (if k = key then (key, v) # kvs else (k, w) # assign kvs key v)"

text \<open>\<^verbatim>\<open>Array.prototype.join\<close> with its default separator.\<close>

fun join :: "string list \<Rightarrow> string" where
  "join [] = []"
| "join [x] = x"
| "join (x # y # ys) = x @ '','' @ join (y # ys)"

text \<open>
  The string conversion a template literal applies to an interpolated value: a string
  is itself, an array is its joined elements, a plain object is the fixed text
  \<^verbatim>\<open>[object Object]\<close>.
\<close>

fun toString :: "jsval \<Rightarrow> string" where
  "toString (JString s) = s"
| "toString (JArray xs) = join (map toString xs)"
| "toString (JObject kvs) = ''[object Object]''"

section \<open>The type-system facade\<close>

text \<open>
  A type is an opaque handle; the facade answers the queries the resolver makes on it.
  Every query is a method call into the type-system library and may throw. A handle on
  which every query throws stands for \<^verbatim>\<open>undefined\<close>.
\<close>

type_synonym ty = nat

record property_symbol =
  getName :: "string res"
  getType :: "ty res"

record type_facade =
  getText :: "ty \<Rightarrow> string res"
  isArray :: "ty \<Rightarrow> bool res"
  isObject :: "ty \<Rightarrow> bool res"
  getArrayElementType :: "ty \<Rightarrow> ty res"
  getProperties :: "ty \<Rightarrow> property_symbol list res"

section \<open>resolveTypeRecursively\<close>

text \<open>
  The \<^verbatim>\<open>visited\<close> set is one mutable object handed down by reference to every recursive
  call, so the model returns it next to the result, also when the call throws. The
  three helpers are the \<^verbatim>\<open>catch\<close> clause and the two \<^verbatim>\<open>return\<close> expressions that wrap a
  recursive result. \<open>getText\<close> is called before the \<^verbatim>\<open>try\<close> block: its throw leaves the
  call. \<open>forEachProperty\<close> is the callback of \<^verbatim>\<open>properties.forEach\<close> run over the list; it
  asks the property for its type, then for its name, then resolves the type, and a throw
  ends the loop. Depths are integers: \<open>maxDepth\<close> comes from the caller and may be
  negative.
\<close>

definition errorText :: "string \<Rightarrow> exn \<Rightarrow> string" where
  "errorText typeName e =
     ''Error resolving type '' @ [CHR 0x22] @ typeName @ [CHR 0x22] @ '': '' @ message e"

definition catchError :: "string \<Rightarrow> jsval res \<times> string set \<Rightarrow> jsval res \<times> string set" where
  "catchError typeName r =
     (case r of
        (Inl e, visited) \<Rightarrow> (Inr (JString (errorText typeName e)), visited)
      | (Inr v, visited) \<Rightarrow> (Inr v, visited))"

definition arrayResult :: "jsval res \<times> string set \<Rightarrow> jsval res \<times> string set" where
  "arrayResult r =
     (case r of
        (Inl e, visited) \<Rightarrow> (Inl e, visited)
      | (Inr v, visited) \<Rightarrow> (Inr (JArray [JString (''Array of: '' @ toString v)]), visited))"

definition objectResult :: "(string \<times> jsval) list res \<times> string set \<Rightarrow> jsval res \<times> string set" where
  "objectResult r =
     (case r of
        (Inl e, visited) \<Rightarrow> (Inl e, visited)
      | (Inr kvs, visited) \<Rightarrow> (Inr (JObject kvs), visited))"

function resolveTypeRecursively ::
    "type_facade \<Rightarrow> ty \<Rightarrow> int \<Rightarrow> int \<Rightarrow> string set \<Rightarrow> jsval res \<times> string set"
  and forEachProperty ::
    "type_facade \<Rightarrow> property_symbol list \<Rightarrow> int \<Rightarrow> int \<Rightarrow> (string \<times> jsval) list \<Rightarrow> string set
      \<Rightarrow> (string \<times> jsval) list res \<times> string set"
where
  "resolveTypeRecursively F type maxDepth currentDepth visited =
     (if currentDepth > maxDepth then (Inr (JString ''Reached max depth''), visited)
      else case getText F type of
        Inl e \<Rightarrow> (Inl e, visited)
      | Inr typeName \<Rightarrow>
          if typeName \<in> visited then (Inr (JString ''Circular reference''), visited)
          else catchError typeName
            (case isArray F type of
               Inl e \<Rightarrow> (Inl e, insert typeName visited)
             | Inr arr \<Rightarrow>
                 if arr then
                   (case getArrayElementType F type of
                      Inl e \<Rightarrow> (Inl e, insert typeName visited)
                    | Inr elem \<Rightarrow>
                        arrayResult (resolveTypeRecursively F elem maxDepth (currentDepth + 1)
                          (insert typeName visited)))
                 else
                   (case isObject F type of
                      Inl e \<Rightarrow> (Inl e, insert typeName visited)
                    | Inr obj \<Rightarrow>
                        if obj then
                          (case getProperties F type of
                             Inl e \<Rightarrow> (Inl e, insert typeName visited)
                           | Inr properties \<Rightarrow>
                               objectResult (forEachProperty F properties maxDepth currentDepth []
                                 (insert typeName visited)))
                        else (Inr (JString typeName), insert typeName visited))))"
| "forEachProperty F [] maxDepth currentDepth result visited = (Inr result, visited)"
| "forEachProperty F (prop # props) maxDepth currentDepth result visited =
     (case getType prop of
        Inl e \<Rightarrow> (Inl e, visited)
      | Inr propType \<Rightarrow>
          (case getName prop of
             Inl e \<Rightarrow> (Inl e, visited)
           | Inr name \<Rightarrow>
               (case resolveTypeRecursively F propType maxDepth (currentDepth + 1) visited of
                  (Inl e, visited') \<Rightarrow> (Inl e, visited')
                | (Inr v, visited') \<Rightarrow>
                    forEachProperty F props maxDepth currentDepth (assign result name v) visited')))"
  by pat_completeness auto
termination
  by (relation "inv_image (less_than <*lex*> less_than)
        (\<lambda>x. case x of
           Inl (F, type, maxDepth, currentDepth, visited) \<Rightarrow>
             (2 * nat (maxDepth + 1 - currentDepth), 0)
         | Inr (F, props, maxDepth, currentDepth, result, visited) \<Rightarrow>
             (2 * nat (maxDepth - currentDepth) + 1, length props))")
    auto

declare resolveTypeRecursively.simps [simp del]

section \<open>Declarations as the facade shows them\<close>

text \<open>
  An exported declaration and the syntax nodes below it. The syntactic kind of a node is
  one value, the facade's answer, so the kind tests of the source (\<^verbatim>\<open>isVariableDeclaration\<close>,
  \<^verbatim>\<open>isFunction\<close>, \<^verbatim>\<open>isClass\<close>, \<^verbatim>\<open>isCallExpression\<close>, \<^verbatim>\<open>isArrowFunction\<close>) are comparisons
  with it; every other query is a call that may throw. \<open>getParameters\<close> of a declaration
  is called through \<^verbatim>\<open>?.()\<close> in one place: \<open>None\<close> is a declaration without that method.
  A type argument of a call and the type of a parameter are both handles of the type
  facade, since the source hands both to the resolver.
\<close>

datatype declaration_kind =
  VariableDeclaration | FunctionDeclaration | ClassDeclaration | OtherDeclaration

datatype expression_kind = CallExpression | ArrowFunction | OtherExpression

record import_declaration =
  getModuleSpecifierValue :: "string res"

record symbol_declaration =
  getFirstAncestorByKind :: "import_declaration option res"

record node_symbol =
  getDeclarations :: "symbol_declaration list res"

record callee =
  callee_getText :: "string res"
  getSymbol :: "node_symbol option res"

record parameter =
  parameter_getType :: "ty res"

record initializer =
  initializer_kind :: expression_kind
  getExpression :: "callee option res"
  getTypeArguments :: "ty list res"
  initializer_getParameters :: "parameter list res"

record exported_declaration =
  declaration_kind :: declaration_kind
  getInitializer :: "initializer option res"
  getParameters :: "parameter list option res"

text \<open>Sequencing of calls that may throw: the first throw ends the evaluation.\<close>

definition andThen :: "'a res \<Rightarrow> ('a \<Rightarrow> 'b res) \<Rightarrow> 'b res" where
  "andThen m f = (case m of Inl e \<Rightarrow> Inl e | Inr x \<Rightarrow> f x)"

text \<open>\<^verbatim>\<open>String.prototype.endsWith\<close>.\<close>

definition endsWith :: "string \<Rightarrow> string \<Rightarrow> bool" where
  "endsWith s t = (length t \<le> length s \<and> drop (length s - length t) s = t)"

definition notAFunction :: "string \<Rightarrow> exn" where
  "notAFunction what = Error (what @ '' is not a function'')"

section \<open>Classification and props extraction\<close>

definition resolveImportSource :: "callee \<Rightarrow> string option res" where
  "resolveImportSource node =
     andThen (getSymbol node) (\<lambda>symbol.
       case symbol of
         None \<Rightarrow> Inr None
       | Some symb \<Rightarrow>
           andThen (getDeclarations symb) (\<lambda>declarations.
             case declarations of
               [] \<Rightarrow> Inr None
             | d # ds \<Rightarrow>
                 andThen (getFirstAncestorByKind d) (\<lambda>importDeclaration.
                   case importDeclaration of
                     None \<Rightarrow> Inr None
                   | Some imp \<Rightarrow>
                       andThen (getModuleSpecifierValue imp) (\<lambda>source. Inr (Some source)))))"

definition isForwardRef :: "exported_declaration \<Rightarrow> bool res" where
  "isForwardRef declaration =
     (if declaration_kind declaration \<noteq> VariableDeclaration then Inr False
      else
        andThen (getInitializer declaration) (\<lambda>initializer.
          case initializer of
            None \<Rightarrow> Inr False
          | Some init \<Rightarrow>
              if initializer_kind init \<noteq> CallExpression then Inr False
              else
                andThen (getExpression init) (\<lambda>expression.
                  case expression of
                    None \<Rightarrow> Inr False
                  | Some expr \<Rightarrow>
                      andThen (callee_getText expr) (\<lambda>text.
                        if \<not> endsWith text ''forwardRef'' then Inr False
                        else
                          andThen (resolveImportSource expr) (\<lambda>importSource.
                            Inr (importSource = Some ''react''))))))"

text \<open>\<^verbatim>\<open>params.length > 0 && params[0].getType().isObject()\<close>\<close>

definition firstParameterIsObject :: "type_facade \<Rightarrow> parameter list \<Rightarrow> bool res" where
  "firstParameterIsObject F params =
     (case params of
        [] \<Rightarrow> Inr False
      | p # ps \<Rightarrow> andThen (parameter_getType p) (isObject F))"

definition isReactComponent :: "type_facade \<Rightarrow> exported_declaration \<Rightarrow> bool res" where
  "isReactComponent F declaration =
     (if declaration_kind declaration = ClassDeclaration then Inr True
      else if declaration_kind declaration = FunctionDeclaration then
        andThen (getParameters declaration) (\<lambda>params.
          case params of
            None \<Rightarrow> Inl (notAFunction ''declaration.getParameters'')
          | Some ps \<Rightarrow> firstParameterIsObject F ps)
      else if declaration_kind declaration = VariableDeclaration then
        andThen (getInitializer declaration) (\<lambda>initializer.
          case initializer of
            None \<Rightarrow> Inr False
          | Some init \<Rightarrow>
              if initializer_kind init \<noteq> ArrowFunction then Inr False
              else andThen (initializer_getParameters init) (firstParameterIsObject F))
      else Inr False)"

definition extractPropsType :: "exported_declaration \<Rightarrow> ty option res" where
  "extractPropsType declaration =
     (if declaration_kind declaration = FunctionDeclaration
         \<or> declaration_kind declaration = VariableDeclaration then
        andThen (getParameters declaration) (\<lambda>own.
          andThen
            (case own of
               Some ps \<Rightarrow> Inr (Some ps)
             | None \<Rightarrow>
                 andThen (getInitializer declaration) (\<lambda>initializer.
                   case initializer of
                     None \<Rightarrow> Inr None
                   | Some init \<Rightarrow>
                       andThen (initializer_getParameters init) (\<lambda>ps. Inr (Some ps))))
            (\<lambda>params.
               case params of
                 None \<Rightarrow> Inr None
               | Some [] \<Rightarrow> Inr None
               | Some (p # ps) \<Rightarrow> andThen (parameter_getType p) (\<lambda>t. Inr (Some t))))
      else Inr None)"

definition extractForwardRefPropsType :: "exported_declaration \<Rightarrow> ty option res" where
  "extractForwardRefPropsType declaration =
     andThen (getInitializer declaration) (\<lambda>initializer.
       case initializer of
         None \<Rightarrow> Inr None
       | Some init \<Rightarrow>
           if initializer_kind init \<noteq> CallExpression then Inr None
           else
             andThen (getTypeArguments init) (\<lambda>typeArguments.
               Inr (if 2 \<le> length typeArguments then Some (typeArguments ! 1) else None)))"

section \<open>analyzeComponentProps\<close>

text \<open>
  The state of the loops: the \<open>result\<close> object, the skipped count, and the lines written
  with \<^verbatim>\<open>console.error\<close>. The flag \<open>processed\<close> is a local of the outer loop, reset for
  every exported name and shared by the declarations under that name.
\<close>

record analysis =
  result :: "(string \<times> jsval) list"
  skippedCount :: nat
  stderr :: "string list"

definition processingError :: "string \<Rightarrow> string \<Rightarrow> exn \<Rightarrow> string" where
  "processingError name filePath e =
     ''Error processing '' @ [CHR 0x22] @ name @ [CHR 0x22] @ '' in file '' @ [CHR 0x22] @ filePath
       @ [CHR 0x22] @ '': '' @ message e"

text \<open>
  Both branches end alike once a props type is found: its text is read for the log line,
  the type is resolved from depth 0 with a fresh visited set, the shape is stored under
  the exported name and \<open>processed\<close> is set.
\<close>

definition recordProps ::
    "type_facade \<Rightarrow> int \<Rightarrow> string \<Rightarrow> ty \<Rightarrow> analysis \<Rightarrow> (analysis \<times> bool) res" where
  "recordProps F maxDepth name propsType st =
     andThen (getText F propsType) (\<lambda>logged.
       andThen (fst (resolveTypeRecursively F propsType maxDepth 0 {})) (\<lambda>shape.
         Inr (st\<lparr> result := assign (result st) name shape \<rparr>, True)))"

definition forwardRefBranch ::
    "type_facade \<Rightarrow> int \<Rightarrow> string \<Rightarrow> exported_declaration \<Rightarrow> analysis \<times> bool \<Rightarrow> (analysis \<times> bool) res" where
  "forwardRefBranch F maxDepth name declaration s =
     andThen (isForwardRef declaration) (\<lambda>forwardRef.
       if forwardRef then
         andThen (extractForwardRefPropsType declaration) (\<lambda>propsType.
           case propsType of
             None \<Rightarrow> Inr s
           | Some t \<Rightarrow> recordProps F maxDepth name t (fst s))
       else Inr s)"

definition componentBranch ::
    "type_facade \<Rightarrow> int \<Rightarrow> string \<Rightarrow> exported_declaration \<Rightarrow> analysis \<times> bool \<Rightarrow> (analysis \<times> bool) res" where
  "componentBranch F maxDepth name declaration s =
     (if snd s then Inr s
      else
        andThen (isReactComponent F declaration) (\<lambda>component.
          if component then
            andThen (extractPropsType declaration) (\<lambda>propsType.
              case propsType of
                None \<Rightarrow> Inr s
              | Some t \<Rightarrow> recordProps F maxDepth name t (fst s))
          else Inr s))"

definition countSkipped :: "analysis \<times> bool \<Rightarrow> analysis \<times> bool" where
  "countSkipped s =
     (if snd s then s else ((fst s)\<lparr> skippedCount := skippedCount (fst s) + 1 \<rparr>, snd s))"

text \<open>The body of the \<^verbatim>\<open>try\<close> block; a throw leaves the state as it was on entry.\<close>

definition tryBlock ::
    "type_facade \<Rightarrow> int \<Rightarrow> string \<Rightarrow> exported_declaration \<Rightarrow> analysis \<times> bool \<Rightarrow> (analysis \<times> bool) res" where
  "tryBlock F maxDepth name declaration s =
     andThen (forwardRefBranch F maxDepth name declaration s) (\<lambda>s1.
       andThen (componentBranch F maxDepth name declaration s1) (\<lambda>s2.
         Inr (countSkipped s2)))"

definition processDeclaration ::
    "type_facade \<Rightarrow> string \<Rightarrow> int \<Rightarrow> string \<Rightarrow> exported_declaration \<Rightarrow> analysis \<times> bool \<Rightarrow> analysis \<times> bool" where
  "processDeclaration F filePath maxDepth name declaration s =
     (case tryBlock F maxDepth name declaration s of
        Inr s' \<Rightarrow> s'
      | Inl e \<Rightarrow>
          ((fst s)\<lparr> skippedCount := skippedCount (fst s) + 1,
                    stderr := stderr (fst s) @ [processingError name filePath e] \<rparr>, snd s))"

fun forEachDeclaration ::
    "type_facade \<Rightarrow> string \<Rightarrow> int \<Rightarrow> string \<Rightarrow> exported_declaration list \<Rightarrow> analysis \<times> bool \<Rightarrow> analysis \<times> bool" where
  "forEachDeclaration F filePath maxDepth name [] s = s"
| "forEachDeclaration F filePath maxDepth name (declaration # declarations) s =
     forEachDeclaration F filePath maxDepth name declarations
       (processDeclaration F filePath maxDepth name declaration s)"

fun forEachExport ::
    "type_facade \<Rightarrow> string \<Rightarrow> int \<Rightarrow> (string \<times> exported_declaration list) list \<Rightarrow> analysis \<Rightarrow> analysis" where
  "forEachExport F filePath maxDepth [] st = st"
| "forEachExport F filePath maxDepth ((name, declarations) # components) st =
     forEachExport F filePath maxDepth components
       (fst (forEachDeclaration F filePath maxDepth name declarations (st, False)))"

text \<open>
  \<open>components\<close> is what \<^verbatim>\<open>sourceFile.getExportedDeclarations()\<close> gives for the file at
  \<open>filePath\<close>, in the order of the map, or the exception of loading the file. The value
  returned is the pair \<^verbatim>\<open>{ result, skippedCount }\<close>; \<open>analysisOf\<close> is the whole final state.
\<close>

definition analysisOf ::
    "type_facade \<Rightarrow> (string \<times> exported_declaration list) list \<Rightarrow> string \<Rightarrow> int \<Rightarrow> analysis" where
  "analysisOf F components filePath maxDepth =
     forEachExport F filePath maxDepth components \<lparr> result = [], skippedCount = 0, stderr = [] \<rparr>"

definition analyzeComponentProps ::
    "type_facade \<Rightarrow> (string \<times> exported_declaration list) list res \<Rightarrow> string \<Rightarrow> int
      \<Rightarrow> ((string \<times> jsval) list \<times> nat) res" where
  "analyzeComponentProps F sourceFile filePath maxDepth =
     andThen sourceFile (\<lambda>components.
       let st = analysisOf F components filePath maxDepth
       in Inr (result st, skippedCount st))"

section \<open>Measures and example inputs\<close>

text \<open>How deeply arrays and objects are nested in a value.\<close>

fun nesting :: "jsval \<Rightarrow> nat" where
  "nesting (JString s) = 0"
| "nesting (JArray xs) = Suc (fold max (map nesting xs) 0)"
| "nesting (JObject kvs) = Suc (fold max (map (\<lambda>kv. nesting (snd kv)) kvs) 0)"

text \<open>
  A facade that answers from a table of well-behaved types. A handle outside the table is
  \<^verbatim>\<open>undefined\<close>: every query on it throws. As in TypeScript, an array type is an object type.
\<close>

datatype type_desc =
    TLeaf string
  | TArray string ty
  | TObject string "(string \<times> ty) list"

fun descText :: "type_desc \<Rightarrow> string" where
  "descText (TLeaf s) = s"
| "descText (TArray s u) = s"
| "descText (TObject s members) = s"

definition undefinedError :: exn where
  "undefinedError = Error ''Cannot read properties of undefined''"

definition facadeOf :: "(ty \<times> type_desc) list \<Rightarrow> type_facade" where
  "facadeOf table =
     \<lparr> getText = (\<lambda>t. case map_of table t of
           None \<Rightarrow> Inl undefinedError
         | Some d \<Rightarrow> Inr (descText d)),
       isArray = (\<lambda>t. case map_of table t of
           None \<Rightarrow> Inl undefinedError
         | Some d \<Rightarrow> Inr (case d of TArray s u \<Rightarrow> True | _ \<Rightarrow> False)),
       isObject = (\<lambda>t. case map_of table t of
           None \<Rightarrow> Inl undefinedError
         | Some d \<Rightarrow> Inr (case d of TLeaf s \<Rightarrow> False | _ \<Rightarrow> True)),
       getArrayElementType = (\<lambda>t. case map_of table t of
           Some (TArray s u) \<Rightarrow> Inr u
         | _ \<Rightarrow> Inl undefinedError),
       getProperties = (\<lambda>t. case map_of table t of
           None \<Rightarrow> Inl undefinedError
         | Some d \<Rightarrow> Inr (case d of
             TObject s members \<Rightarrow>
               map (\<lambda>(n, u). \<lparr> getName = Inr n, getType = Inr u \<rparr>) members
           | _ \<Rightarrow> [])) \<rparr>"

text \<open>\<^verbatim>\<open>type T = { next: T }\<close>\<close>

definition selfTypes :: type_facade where
  "selfTypes = facadeOf [(0, TObject ''T'' [(''next'', 0)])]"






text \<open>
  \<^verbatim>\<open>export function Card(props: { title: string; tags: string[] })\<close>: the types of the file
  and its exported declarations.
\<close>

definition cardTypes :: type_facade where
  "cardTypes = facadeOf
     [(0, TObject ''{ title: string; tags: string[]; }'' [(''title'', 1), (''tags'', 2)]),
      (1, TLeaf ''string''),
      (2, TArray ''string[]'' 1)]"

definition functionDeclaration :: "parameter list \<Rightarrow> exported_declaration" where
  "functionDeclaration params =
     \<lparr> declaration_kind = FunctionDeclaration,
       getInitializer = Inl (notAFunction ''declaration.getInitializer''),
       getParameters = Inr (Some params) \<rparr>"




text \<open>A function declaration whose first parameter cannot be typed: the facade throws.\<close>

definition brokenDeclaration :: exported_declaration where
  "brokenDeclaration = functionDeclaration [\<lparr> parameter_getType = Inl (Error ''boom'') \<rparr>]"

section \<open>The steps of the resolver\<close>

text \<open>
  One equation for each way through the body of \<open>resolveTypeRecursively\<close>, and the
  case analysis that goes with them.
\<close>

lemma resolve_beyond:
  "maxDepth < currentDepth \<Longrightarrow>
     resolveTypeRecursively F type maxDepth currentDepth visited =
       (Inr (JString ''Reached max depth''), visited)"
  by (simp add: resolveTypeRecursively.simps)

lemma resolve_text_throws:
  "\<not> maxDepth < currentDepth \<Longrightarrow> getText F type = Inl e \<Longrightarrow>
     resolveTypeRecursively F type maxDepth currentDepth visited = (Inl e, visited)"
  by (simp add: resolveTypeRecursively.simps)

lemma resolve_circular:
  "\<not> maxDepth < currentDepth \<Longrightarrow> getText F type = Inr k \<Longrightarrow> k \<in> visited \<Longrightarrow>
     resolveTypeRecursively F type maxDepth currentDepth visited =
       (Inr (JString ''Circular reference''), visited)"
  by (simp add: resolveTypeRecursively.simps)

lemma resolve_isArray_throws:
  "\<not> maxDepth < currentDepth \<Longrightarrow> getText F type = Inr k \<Longrightarrow> k \<notin> visited \<Longrightarrow>
   isArray F type = Inl e \<Longrightarrow>
     resolveTypeRecursively F type maxDepth currentDepth visited =
       (Inr (JString (errorText k e)), insert k visited)"
  by (simp add: resolveTypeRecursively.simps catchError_def)

lemma resolve_element_throws:
  "\<not> maxDepth < currentDepth \<Longrightarrow> getText F type = Inr k \<Longrightarrow> k \<notin> visited \<Longrightarrow>
   isArray F type = Inr True \<Longrightarrow> getArrayElementType F type = Inl e \<Longrightarrow>
     resolveTypeRecursively F type maxDepth currentDepth visited =
       (Inr (JString (errorText k e)), insert k visited)"
  by (simp add: resolveTypeRecursively.simps catchError_def)

lemma resolve_array:
  "\<not> maxDepth < currentDepth \<Longrightarrow> getText F type = Inr k \<Longrightarrow> k \<notin> visited \<Longrightarrow>
   isArray F type = Inr True \<Longrightarrow> getArrayElementType F type = Inr u \<Longrightarrow>
     resolveTypeRecursively F type maxDepth currentDepth visited =
       catchError k (arrayResult
         (resolveTypeRecursively F u maxDepth (currentDepth + 1) (insert k visited)))"
  by (simp add: resolveTypeRecursively.simps)

lemma resolve_isObject_throws:
  "\<not> maxDepth < currentDepth \<Longrightarrow> getText F type = Inr k \<Longrightarrow> k \<notin> visited \<Longrightarrow>
   isArray F type = Inr False \<Longrightarrow> isObject F type = Inl e \<Longrightarrow>
     resolveTypeRecursively F type maxDepth currentDepth visited =
       (Inr (JString (errorText k e)), insert k visited)"
  by (simp add: resolveTypeRecursively.simps catchError_def)

lemma resolve_properties_throw:
  "\<not> maxDepth < currentDepth \<Longrightarrow> getText F type = Inr k \<Longrightarrow> k \<notin> visited \<Longrightarrow>
   isArray F type = Inr False \<Longrightarrow> isObject F type = Inr True \<Longrightarrow>
   getProperties F type = Inl e \<Longrightarrow>
     resolveTypeRecursively F type maxDepth currentDepth visited =
       (Inr (JString (errorText k e)), insert k visited)"
  by (simp add: resolveTypeRecursively.simps catchError_def)

lemma resolve_object:
  "\<not> maxDepth < currentDepth \<Longrightarrow> getText F type = Inr k \<Longrightarrow> k \<notin> visited \<Longrightarrow>
   isArray F type = Inr False \<Longrightarrow> isObject F type = Inr True \<Longrightarrow>
   getProperties F type = Inr ps \<Longrightarrow>
     resolveTypeRecursively F type maxDepth currentDepth visited =
       catchError k (objectResult
         (forEachProperty F ps maxDepth currentDepth [] (insert k visited)))"
  by (simp add: resolveTypeRecursively.simps)

lemma resolve_leaf:
  "\<not> maxDepth < currentDepth \<Longrightarrow> getText F type = Inr k \<Longrightarrow> k \<notin> visited \<Longrightarrow>
   isArray F type = Inr False \<Longrightarrow> isObject F type = Inr False \<Longrightarrow>
     resolveTypeRecursively F type maxDepth currentDepth visited =
       (Inr (JString k), insert k visited)"
  by (simp add: resolveTypeRecursively.simps catchError_def)

lemmas resolve_steps =
  resolve_beyond resolve_text_throws resolve_circular resolve_isArray_throws
  resolve_element_throws resolve_array resolve_isObject_throws resolve_properties_throw
  resolve_object resolve_leaf

lemma resolve_cases [case_names beyond text_throws circular isArray_throws element_throws array
    isObject_throws properties_throw object leaf]:
  obtains
    "maxDepth < currentDepth"
  | e where "\<not> maxDepth < currentDepth" "getText F type = Inl e"
  | k where "\<not> maxDepth < currentDepth" "getText F type = Inr k" "k \<in> visited"
  | k e where "\<not> maxDepth < currentDepth" "getText F type = Inr k" "k \<notin> visited"
      "isArray F type = Inl e"
  | k e where "\<not> maxDepth < currentDepth" "getText F type = Inr k" "k \<notin> visited"
      "isArray F type = Inr True" "getArrayElementType F type = Inl e"
  | k u where "\<not> maxDepth < currentDepth" "getText F type = Inr k" "k \<notin> visited"
      "isArray F type = Inr True" "getArrayElementType F type = Inr u"
  | k e where "\<not> maxDepth < currentDepth" "getText F type = Inr k" "k \<notin> visited"
      "isArray F type = Inr False" "isObject F type = Inl e"
  | k e where "\<not> maxDepth < currentDepth" "getText F type = Inr k" "k \<notin> visited"
      "isArray F type = Inr False" "isObject F type = Inr True" "getProperties F type = Inl e"
  | k ps where "\<not> maxDepth < currentDepth" "getText F type = Inr k" "k \<notin> visited"
      "isArray F type = Inr False" "isObject F type = Inr True" "getProperties F type = Inr ps"
  | k where "\<not> maxDepth < currentDepth" "getText F type = Inr k" "k \<notin> visited"
      "isArray F type = Inr False" "isObject F type = Inr False"
proof (cases "maxDepth < currentDepth")
  case True
  then show ?thesis by (rule that(1))
next
  case deep: False
  show ?thesis
  proof (cases "getText F type")
    case (Inl e)
    with deep show ?thesis by (rule that(2))
  next
    case k: (Inr k)
    show ?thesis
    proof (cases "k \<in> visited")
      case True
      with deep k show ?thesis by (rule that(3))
    next
      case new: False
      show ?thesis
      proof (cases "isArray F type")
        case (Inl e)
        with deep k new show ?thesis by (rule that(4))
      next
        case arr: (Inr arr)
        show ?thesis
        proof (cases arr)
          case True
          with arr have a: "isArray F type = Inr True" by simp
          show ?thesis
          proof (cases "getArrayElementType F type")
            case (Inl e)
            with deep k new a show ?thesis by (rule that(5))
          next
            case (Inr u)
            with deep k new a show ?thesis by (rule that(6))
          qed
        next
          case False
          with arr have a: "isArray F type = Inr False" by simp
          show ?thesis
          proof (cases "isObject F type")
            case (Inl e)
            with deep k new a show ?thesis by (rule that(7))
          next
            case obj: (Inr obj)
            show ?thesis
            proof (cases obj)
              case True
              with obj have b: "isObject F type = Inr True" by simp
              show ?thesis
              proof (cases "getProperties F type")
                case (Inl e)
                with deep k new a b show ?thesis by (rule that(8))
              next
                case (Inr ps)
                with deep k new a b show ?thesis by (rule that(9))
              qed
            next
              case False
              with obj have b: "isObject F type = Inr False" by simp
              from deep k new a b show ?thesis by (rule that(10))
            qed
          qed
        qed
      qed
    qed
  qed
qed

section \<open>The visited set only grows\<close>

lemma snd_catchError [simp]: "snd (catchError k r) = snd r"
  by (simp add: catchError_def split: prod.splits sum.splits)

lemma snd_arrayResult [simp]: "snd (arrayResult r) = snd r"
  by (simp add: arrayResult_def split: prod.splits sum.splits)

lemma snd_objectResult [simp]: "snd (objectResult r) = snd r"
  by (simp add: objectResult_def split: prod.splits sum.splits)




section \<open>Every result is shallow\<close>

lemma fold_max_le:
  "fold max ns (b::nat) \<le> c \<longleftrightarrow> b \<le> c \<and> (\<forall>n\<in>set ns. n \<le> c)"
  by (induction ns arbitrary: b) auto

lemma set_assign: "set (assign kvs key v) \<subseteq> insert (key, v) (set kvs)"
  by (induction kvs key v rule: assign.induct) auto

lemma nesting_array_result:
  "case fst (catchError k (arrayResult r)) of Inl e \<Rightarrow> True | Inr v \<Rightarrow> nesting v \<le> Suc n"
  by (cases r) (simp add: catchError_def arrayResult_def split: sum.splits)

lemma nesting_object_result:
  assumes "case fst r of Inl e \<Rightarrow> True | Inr kvs \<Rightarrow> \<forall>kv\<in>set kvs. nesting (snd kv) \<le> n"
  shows "case fst (catchError k (objectResult r)) of Inl e \<Rightarrow> True | Inr v \<Rightarrow> nesting v \<le> Suc n"
  using assms
  by (cases r) (simp add: catchError_def objectResult_def fold_max_le split: sum.splits)

lemma nesting_bound:
  "case fst (resolveTypeRecursively F type maxDepth currentDepth visited) of
     Inl e \<Rightarrow> True
   | Inr v \<Rightarrow> nesting v \<le> nat (maxDepth + 1 - currentDepth)"
  "(\<forall>kv\<in>set acc. nesting (snd kv) \<le> nat (maxDepth - currentDepth)) \<Longrightarrow>
   (case fst (forEachProperty F props maxDepth currentDepth acc visited) of
     Inl e \<Rightarrow> True
   | Inr kvs \<Rightarrow> \<forall>kv\<in>set kvs. nesting (snd kv) \<le> nat (maxDepth - currentDepth))"
proof (induction F type maxDepth currentDepth visited and F props maxDepth currentDepth acc visited
    rule: resolveTypeRecursively_forEachProperty.induct)
  case (1 F type maxDepth currentDepth visited)
  show ?case
  proof (cases rule: resolve_cases[where maxDepth=maxDepth and currentDepth=currentDepth and F=F
        and type=type and visited=visited])
    case (array k u)
    then have le: "nat (maxDepth + 1 - currentDepth) = Suc (nat (maxDepth - currentDepth))"
      by simp
    show ?thesis
      unfolding resolve_array[OF array] le by (rule nesting_array_result)
  next
    case (object k ps)
    then have le: "nat (maxDepth + 1 - currentDepth) = Suc (nat (maxDepth - currentDepth))"
      by simp
    have "case fst (forEachProperty F ps maxDepth currentDepth [] (insert k visited)) of
            Inl e \<Rightarrow> True
          | Inr kvs \<Rightarrow> \<forall>kv\<in>set kvs. nesting (snd kv) \<le> nat (maxDepth - currentDepth)"
      using "1.IH"(2)[OF object(1,2,3,4) _ object(5) _ object(6)] by simp
    then show ?thesis
      unfolding resolve_object[OF object] le by (rule nesting_object_result)
  qed (simp_all add: resolve_steps)
next
  case (2 F maxDepth currentDepth acc visited)
  then show ?case by simp
next
  case (3 F p ps maxDepth currentDepth acc visited)
  show ?case
  proof (cases "getType p")
    case (Inl e)
    then show ?thesis by simp
  next
    case t: (Inr t)
    show ?thesis
    proof (cases "getName p")
      case (Inl e)
      then show ?thesis using t by simp
    next
      case n: (Inr n)
      obtain r V where r: "resolveTypeRecursively F t maxDepth (currentDepth + 1) visited = (r, V)"
        by (cases "resolveTypeRecursively F t maxDepth (currentDepth + 1) visited")
      show ?thesis
      proof (cases r)
        case (Inl e)
        then show ?thesis using t n r by simp
      next
        case v: (Inr v)
        have "nesting v \<le> nat (maxDepth - currentDepth)"
          using "3.IH"(1)[OF t n] r v by simp
        then have "\<forall>kv\<in>set (assign acc n v). nesting (snd kv) \<le> nat (maxDepth - currentDepth)"
          using "3.prems" set_assign[of acc n v] by auto
        then show ?thesis
          using "3.IH"(2)[OF t n r[symmetric] v] t n r v by simp
      qed
    qed
  qed
qed

text \<open>
  Evaluation of the resolver on a concrete facade: the defining equation is unfolded
  only where its tests are decided.
\<close>

lemmas resolver_eval =
  facadeOf_def resolveTypeRecursively.simps catchError_def arrayResult_def objectResult_def
  errorText_def

section \<open>The loops of the aggregator\<close>

lemma andThen_Inr [simp]: "andThen (Inr x) f = f x"
  by (simp add: andThen_def)

lemma andThen_Inl [simp]: "andThen (Inl e) f = Inl e"
  by (simp add: andThen_def)

lemma forEachDeclaration_append:
  "forEachDeclaration F filePath maxDepth name (ds @ ds') s =
     forEachDeclaration F filePath maxDepth name ds'
       (forEachDeclaration F filePath maxDepth name ds s)"
  by (induction ds arbitrary: s) simp_all

lemma forEachExport_append:
  "forEachExport F filePath maxDepth (cs @ cs') st =
     forEachExport F filePath maxDepth cs' (forEachExport F filePath maxDepth cs st)"
  by (induction cs arbitrary: st) auto




text \<open>Evaluation of the aggregator on concrete declarations.\<close>

lemmas aggregator_eval =
  isForwardRef_def resolveImportSource_def isReactComponent_def firstParameterIsObject_def
  extractPropsType_def extractForwardRefPropsType_def recordProps_def
  forwardRefBranch_def componentBranch_def countSkipped_def tryBlock_def processDeclaration_def
  analysisOf_def analyzeComponentProps_def endsWith_def processingError_def

lemma cardTypes_queries:
  "getText cardTypes 0 = Inr ''{ title: string; tags: string[]; }''"
  "isObject cardTypes 0 = Inr True"
  "getText cardTypes 2 = Inr ''string[]''"
  "isObject cardTypes 2 = Inr True"
  by (simp_all add: cardTypes_def facadeOf_def)

lemma card_shape:
  "resolveTypeRecursively cardTypes 0 2 0 {} =
     (Inr (JObject [(''title'', JString ''string''),
                    (''tags'', JArray [JString ''Array of: Circular reference''])]),
      {''string[]'', ''string'', ''{ title: string; tags: string[]; }''})"
  by (simp add: cardTypes_def resolver_eval)

lemma tags_shape:
  "resolveTypeRecursively cardTypes 2 2 0 {} =
     (Inr (JArray [JString ''Array of: string'']), {''string'', ''string[]''})"
  by (simp add: cardTypes_def resolver_eval)

section \<open>Claims about the resolver\<close>









text \<open>
  C5. A type reached at a depth strictly greater than \<open>maxDepth\<close> resolves to exactly the
  max-depth marker. The test comes first: no facade query is made, so it does not matter
  whether the type's key is already in the visited set, and the set comes back unchanged.
\<close>

theorem max_depth_marker:
  "maxDepth < currentDepth \<Longrightarrow>
     resolveTypeRecursively F type maxDepth currentDepth visited =
       (Inr (JString ''Reached max depth''), visited)"
  by (subst resolveTypeRecursively.simps) simp

theorem max_depth_marker_witness:
  "getText selfTypes 0 = Inr ''T''
   \<and> resolveTypeRecursively selfTypes 0 2 3 {''T''} = (Inr (JString ''Reached max depth''), {''T''})"
  using max_depth_marker[of 2 3 selfTypes 0 "{''T''}"]
  by (simp add: selfTypes_def facadeOf_def)




text \<open>
  C10. The recursion of the resolver is well-founded at every argument: every chain of
  nested calls is finite, because a call made from depth \<open>d\<close> within the budget is made at
  depth \<open>d + 1\<close> and a call beyond the budget makes none. This is the domain predicate of
  the function, the accessible part of its call relation. The result is a finite value
  whose nesting is bounded by what is left of the depth budget.
\<close>

theorem resolve_terminates:
  "resolveTypeRecursively_forEachProperty_dom (Inl (F, type, maxDepth, currentDepth, visited))
   \<and> (case fst (resolveTypeRecursively F type maxDepth currentDepth visited) of
        Inl e \<Rightarrow> True
      | Inr v \<Rightarrow> nesting v \<le> nat (maxDepth + 1 - currentDepth))"
proof
  have "All resolveTypeRecursively_forEachProperty_dom"
  proof (rule "resolveTypeRecursively_forEachProperty.termination"[of
        "inv_image (less_than <*lex*> less_than)
          (\<lambda>x. case x of
             Inl (F, type, maxDepth, currentDepth, visited) \<Rightarrow>
               (2 * nat (maxDepth + 1 - currentDepth), 0)
           | Inr (F, props, maxDepth, currentDepth, acc, visited) \<Rightarrow>
               (2 * nat (maxDepth - currentDepth) + 1, length props))"], goal_cases)
    case 1
    show ?case by (intro wf_inv_image wf_lex_prod wf_less_than)
  next
    case 2
    then show ?case by simp
  next
    case 3
    then show ?case by simp
  next
    case 4
    then show ?case by simp
  next
    case 5
    then show ?case by simp
  qed
  then show "resolveTypeRecursively_forEachProperty_dom
      (Inl (F, type, maxDepth, currentDepth, visited))"
    by simp
next
  show "case fst (resolveTypeRecursively F type maxDepth currentDepth visited) of
        Inl e \<Rightarrow> True
      | Inr v \<Rightarrow> nesting v \<le> nat (maxDepth + 1 - currentDepth)"
    by (rule nesting_bound(1))
qed

theorem resolve_terminates_witness:
  "resolveTypeRecursively_forEachProperty_dom (Inl (selfTypes, 0, 5, 0, {}))
   \<and> resolveTypeRecursively selfTypes 0 5 0 {} =
       (Inr (JObject [(''next'', JString ''Circular reference'')]), {''T''})
   \<and> nesting (JObject [(''next'', JString ''Circular reference'')]) \<le> nat (5 + 1 - 0)"
proof -
  have shape: "resolveTypeRecursively selfTypes 0 5 0 {} =
      (Inr (JObject [(''next'', JString ''Circular reference'')]), {''T''})"
    by (simp add: selfTypes_def resolver_eval)
  from resolve_terminates[of selfTypes 0 5 0 "{}"] show ?thesis
    unfolding shape by simp
qed

section \<open>Claims about classification and the aggregator\<close>









text \<open>
  C9. When the processing of one exported declaration throws, that declaration is
  counted as skipped and the error is logged; the result object is untouched, and the loop
  goes on with the remaining declarations of the name and the remaining names of the
  file. Here \<open>st\<close> is the state reached before the throwing declaration, with everything
  recorded so far.
\<close>

theorem throwing_declaration_skipped:
  assumes reached: "forEachDeclaration F filePath maxDepth name before
        (forEachExport F filePath maxDepth earlier st0, False) = (st, processed)"
    and throws: "tryBlock F maxDepth name d (st, processed) = Inl e"
  shows "forEachExport F filePath maxDepth (earlier @ (name, before @ d # after) # later) st0 =
           forEachExport F filePath maxDepth later
             (fst (forEachDeclaration F filePath maxDepth name after
                (st\<lparr> skippedCount := skippedCount st + 1,
                     stderr := stderr st @ [processingError name filePath e] \<rparr>, processed)))"
proof -
  have "processDeclaration F filePath maxDepth name d (st, processed) =
      (st\<lparr> skippedCount := skippedCount st + 1,
           stderr := stderr st @ [processingError name filePath e] \<rparr>, processed)"
    using throws by (simp add: processDeclaration_def)
  then show ?thesis
    using reached by (simp add: forEachExport_append forEachDeclaration_append)
qed

theorem throwing_declaration_skipped_witness:
  "analyzeComponentProps cardTypes
     (Inr [(''Card'', [functionDeclaration [\<lparr> parameter_getType = Inr 0 \<rparr>]]),
           (''Broken'', [brokenDeclaration]),
           (''Tags'', [functionDeclaration [\<lparr> parameter_getType = Inr 2 \<rparr>]])])
     ''Card.tsx'' 2 =
   Inr ([(''Card'', JObject [(''title'', JString ''string''),
                             (''tags'', JArray [JString ''Array of: Circular reference''])]),
         (''Tags'', JArray [JString ''Array of: string''])], 1)"
proof -
  let ?card = "JObject [(''title'', JString ''string''),
                        (''tags'', JArray [JString ''Array of: Circular reference''])]"
  let ?st = "\<lparr> result = [(''Card'', ?card)], skippedCount = 0, stderr = [] \<rparr>"
  have reached: "forEachDeclaration cardTypes ''Card.tsx'' 2 ''Broken'' []
      (forEachExport cardTypes ''Card.tsx'' 2
         [(''Card'', [functionDeclaration [\<lparr> parameter_getType = Inr 0 \<rparr>]])]
         \<lparr> result = [], skippedCount = 0, stderr = [] \<rparr>, False) = (?st, False)"
    by (simp add: aggregator_eval functionDeclaration_def card_shape cardTypes_queries)
  have throws: "tryBlock cardTypes 2 ''Broken'' brokenDeclaration (?st, False) = Inl (Error ''boom'')"
    by (simp add: aggregator_eval brokenDeclaration_def functionDeclaration_def)
  from throwing_declaration_skipped[OF reached throws, of "[]"
      "[(''Tags'', [functionDeclaration [\<lparr> parameter_getType = Inr 2 \<rparr>]])]"]
  show ?thesis
    by (simp add: aggregator_eval functionDeclaration_def tags_shape cardTypes_queries)
qed

end
